theory Spec2Isabelle
  imports Main
begin

section \<open>Common definitions\<close>

text \<open>
  A Go \<^verbatim>\<open>error\<close> is modelled by its message (what \<^verbatim>\<open>err.Error()\<close> returns).
  \<^verbatim>\<open>fmt.Errorf("prefix: %w", err)\<close> is the message of the cause after the prefix.
  A Go \<^verbatim>\<open>string\<close> is a byte sequence, so it is a \<^typ>\<open>string\<close> (a list of 8-bit characters).
  A \<^verbatim>\<open>time.Duration\<close> is an integer number of nanoseconds.
\<close>

datatype error = Error string

fun msg :: "error \<Rightarrow> string" where
  "msg (Error m) = m"

definition wrap :: "string \<Rightarrow> error \<Rightarrow> error" where
  "wrap prefix e = Error (prefix @ msg e)"

type_synonym Duration = int

definition Second :: Duration where
  "Second = 1000000000"

section \<open>Injector (package injection)\<close>

text \<open>
  The injector's configuration, as declared beside \<^verbatim>\<open>injector.Inject\<close>.
\<close>

record InjectorConfig =
  Mode :: string
  RestoreClipboard :: bool
  inj_WtypeTimeout :: Duration
  inj_WtypeDelay :: Duration
  inj_ClipboardTimeout :: Duration

text \<open>
  What \<^verbatim>\<open>Inject\<close> does outside the process: each external operation it performs is
  recorded, in order, in the trace it returns.
\<close>

datatype inj_op =
    CheckClipboardAvailable
  | GetClipboard Duration
  | SetClipboard string Duration
  | LookPathWtype
  | WaitDelay Duration
  | RunWtype string
  | SpawnRestoreClipboard string Duration

text \<open>
  The environment answers each external operation. \<^verbatim>\<open>checkClipboardAvailable\<close>,
  \<^verbatim>\<open>getClipboard\<close> and \<^verbatim>\<open>setClipboard\<close> are helpers of the package; the others are
  what \<^verbatim>\<open>typeText\<close> asks of the operating system: \<^verbatim>\<open>exec.LookPath("wtype")\<close>,
  \<^verbatim>\<open>os.Getenv\<close>, and running \<^verbatim>\<open>wtype\<close> on a text with the time its context leaves
  it. \<open>ctx_done_after\<close> is the caller's context: the time after which it is done,
  counted from the call of \<^verbatim>\<open>typeText\<close> (zero or less: done already), with its error,
  or \<open>None\<close> when it is never done. The checks themselves take no time.
\<close>

record inj_env =
  checkClipboardAvailable :: "error option"
  getClipboard :: "Duration \<Rightarrow> string \<times> error option"
  setClipboard :: "string \<Rightarrow> Duration \<Rightarrow> error option"
  lookPath_wtype :: "error option"
  inj_getenv :: "string \<Rightarrow> string"
  ctx_done_after :: "(Duration \<times> error) option"
  run_wtype :: "string \<Rightarrow> Duration \<Rightarrow> error option"

definition checkWtypeAvailable :: "inj_env \<Rightarrow> error option \<times> inj_op list" where
  "checkWtypeAvailable env =
     (case lookPath_wtype env of
        Some err \<Rightarrow>
          (Some (Error (''wtype not found: '' @ msg err @ '' (install wtype package)'')),
           [LookPathWtype])
      | None \<Rightarrow>
          if inj_getenv env ''WAYLAND_DISPLAY'' = '''' then
            (Some (Error ''WAYLAND_DISPLAY not set - wtype requires Wayland session''),
             [LookPathWtype])
          else if inj_getenv env ''XDG_RUNTIME_DIR'' = '''' then
            (Some (Error ''XDG_RUNTIME_DIR not set - wtype requires proper session environment''),
             [LookPathWtype])
          else (None, [LookPathWtype]))"

definition DeadlineExceeded :: error where
  "DeadlineExceeded = Error ''context deadline exceeded''"

text \<open>
  \<^verbatim>\<open>context.WithTimeout(ctx, timeout)\<close>: when the derived context is done, counted from
  its creation, and its error. A parent that is done already, or done no later than the
  timeout, gives its own error; otherwise the deadline does, at once when the timeout is
  zero or less.
\<close>

definition WithTimeout :: "inj_env \<Rightarrow> Duration \<Rightarrow> Duration \<times> error" where
  "WithTimeout env timeout =
     (case ctx_done_after env of
        Some (t, err) \<Rightarrow>
          if t \<le> 0 \<or> t \<le> timeout then (max 0 t, err) else (max 0 timeout, DeadlineExceeded)
      | None \<Rightarrow> (max 0 timeout, DeadlineExceeded))"

text \<open>
  \<^verbatim>\<open>typeText\<close>. The \<^verbatim>\<open>select\<close> returns the context's error when the context is done
  before the delay has elapsed. \<^verbatim>\<open>cmd.Run()\<close> on a context that is done does not start
  \<^verbatim>\<open>wtype\<close> and returns the context's error.
\<close>

definition typeText :: "inj_env \<Rightarrow> string \<Rightarrow> Duration \<Rightarrow> Duration \<Rightarrow> error option \<times> inj_op list" where
  "typeText env text timeout delay =
     (case WithTimeout env timeout of
        (done_after, cerr) \<Rightarrow>
     (case checkWtypeAvailable env of
        (Some err, tr) \<Rightarrow> (Some err, tr)
      | (None, tr) \<Rightarrow>
          if delay > 0 \<and> done_after < delay then (Some cerr, tr @ [WaitDelay delay])
          else
            (let tr' = tr @ (if delay > 0 then [WaitDelay delay] else []);
                 elapsed = (if delay > 0 then delay else 0)
             in if done_after \<le> elapsed then (Some (wrap ''wtype failed: '' cerr), tr')
                else
                  (case run_wtype env text (done_after - elapsed) of
                     Some err \<Rightarrow> (Some (wrap ''wtype failed: '' err), tr' @ [RunWtype text])
                   | None \<Rightarrow> (None, tr' @ [RunWtype text])))))"

text \<open>
  The clipboard stage of \<^verbatim>\<open>Inject\<close> (modes \<^verbatim>\<open>clipboard\<close> and \<^verbatim>\<open>fallback\<close>): it
  returns the error that ends \<^verbatim>\<open>Inject\<close>, or the clipboard's original content
  (empty unless \<^verbatim>\<open>RestoreClipboard\<close> is set).
\<close>

definition clipboard_stage :: "InjectorConfig \<Rightarrow> inj_env \<Rightarrow> string \<Rightarrow> (error + string) \<times> inj_op list" where
  "clipboard_stage cfg env text =
     (if Mode cfg = ''clipboard'' \<or> Mode cfg = ''fallback'' then
        (case checkClipboardAvailable env of
           Some err \<Rightarrow> (Inl (wrap ''clipboard tools not available: '' err), [CheckClipboardAvailable])
         | None \<Rightarrow>
             let originalClipboard =
                   (if RestoreClipboard cfg then fst (getClipboard env (inj_ClipboardTimeout cfg)) else '''');
                 tr = [CheckClipboardAvailable] @
                   (if RestoreClipboard cfg then [GetClipboard (inj_ClipboardTimeout cfg)] else [])
             in (case setClipboard env text (inj_ClipboardTimeout cfg) of
                   Some err \<Rightarrow>
                     (Inl (wrap ''failed to copy text to clipboard: '' err),
                      tr @ [SetClipboard text (inj_ClipboardTimeout cfg)])
                 | None \<Rightarrow> (Inr originalClipboard, tr @ [SetClipboard text (inj_ClipboardTimeout cfg)])))
      else (Inr '''', []))"

definition restore_stage :: "InjectorConfig \<Rightarrow> string \<Rightarrow> inj_op list" where
  "restore_stage cfg originalClipboard =
     (if RestoreClipboard cfg \<and> originalClipboard \<noteq> ''''
      then [SpawnRestoreClipboard originalClipboard (inj_ClipboardTimeout cfg)] else [])"

definition Inject :: "InjectorConfig \<Rightarrow> inj_env \<Rightarrow> string \<Rightarrow> error option \<times> inj_op list" where
  "Inject cfg env text =
     (if text = '''' then (Some (Error ''cannot inject empty text''), [])
      else
        (case clipboard_stage cfg env text of
           (Inl err, tr) \<Rightarrow> (Some err, tr)
         | (Inr originalClipboard, tr) \<Rightarrow>
             if Mode cfg = ''clipboard'' then (None, tr)
             else if Mode cfg = ''type'' then
               (case typeText env text (inj_WtypeTimeout cfg) (inj_WtypeDelay cfg) of
                  (Some err, tr2) \<Rightarrow> (Some (wrap ''failed to type text: '' err), tr @ tr2)
                | (None, tr2) \<Rightarrow> (None, tr @ tr2 @ restore_stage cfg originalClipboard))
             else if Mode cfg = ''fallback'' then
               (case typeText env text (inj_WtypeTimeout cfg) (inj_WtypeDelay cfg) of
                  (Some err, tr2) \<Rightarrow> (None, tr @ tr2)
                | (None, tr2) \<Rightarrow> (None, tr @ tr2 @ restore_stage cfg originalClipboard))
             else (Some (Error (''unsupported injection mode: '' @ Mode cfg)), tr)))"

section \<open>Formatting (package fmt)\<close>

text \<open>
  The verb \<^verbatim>\<open>%d\<close> prints an integer in decimal. The verbs \<^verbatim>\<open>%v\<close> on a
  \<^verbatim>\<open>time.Duration\<close> and \<^verbatim>\<open>%q\<close> on a string are the standard library's; they
  are taken as given (the record \<open>sys\<close> below carries them, with the process
  environment).
\<close>

definition digit_char :: "nat \<Rightarrow> char" where
  "digit_char n = ''0123456789'' ! n"

fun digits :: "nat \<Rightarrow> string" where
  "digits n = (if n < 10 then [digit_char n] else digits (n div 10) @ [digit_char (n mod 10)])"

declare digits.simps [simp del]

definition fmt_d :: "int \<Rightarrow> string" where
  "fmt_d i = (if i < 0 then ''-'' @ digits (nat (- i)) else digits (nat i))"

record sys =
  Getenv :: "string \<Rightarrow> string"
  fmt_v_Duration :: "Duration \<Rightarrow> string"
  fmt_q_string :: "string \<Rightarrow> string"

section \<open>Notification messages (package notify)\<close>

datatype MessageType =
    MsgRecordingStarted
  | MsgTranscribing
  | MsgConfigReloaded
  | MsgOperationCancelled
  | MsgRecordingAborted
  | MsgInjectionAborted

record MessageDef =
  def_Type :: MessageType
  ConfigKey :: string
  DefaultTitle :: string
  DefaultBody :: string
  def_IsError :: bool

definition MessageDefs :: "MessageDef list" where
  "MessageDefs =
    [\<lparr>def_Type = MsgRecordingStarted, ConfigKey = ''recording_started'',
      DefaultTitle = ''Hyprvoice'', DefaultBody = ''Recording Started'', def_IsError = False\<rparr>,
     \<lparr>def_Type = MsgTranscribing, ConfigKey = ''transcribing'',
      DefaultTitle = ''Hyprvoice'', DefaultBody = ''Recording Ended... Transcribing'', def_IsError = False\<rparr>,
     \<lparr>def_Type = MsgConfigReloaded, ConfigKey = ''config_reloaded'',
      DefaultTitle = ''Hyprvoice'', DefaultBody = ''Config Reloaded'', def_IsError = False\<rparr>,
     \<lparr>def_Type = MsgOperationCancelled, ConfigKey = ''operation_cancelled'',
      DefaultTitle = ''Hyprvoice'', DefaultBody = ''Operation Cancelled'', def_IsError = False\<rparr>,
     \<lparr>def_Type = MsgRecordingAborted, ConfigKey = ''recording_aborted'',
      DefaultTitle = [], DefaultBody = ''Recording Aborted'', def_IsError = True\<rparr>,
     \<lparr>def_Type = MsgInjectionAborted, ConfigKey = ''injection_aborted'',
      DefaultTitle = [], DefaultBody = ''Injection Aborted'', def_IsError = True\<rparr>]"

record Message =
  msg_Title :: string
  msg_Body :: string
  IsError :: bool

section \<open>Configuration (package config)\<close>

record RecordingConfig =
  SampleRate :: int
  Channels :: int
  Format :: string
  BufferSize :: int
  Device :: string
  ChannelBufferSize :: int
  Timeout :: Duration

record TranscriptionConfig =
  Provider :: string
  APIKey :: string
  Language :: string
  Model :: string
  ServerURL :: string

record InjectionConfig =
  Backends :: "string list"
  YdotoolTimeout :: Duration
  WtypeTimeout :: Duration
  WtypeDelay :: Duration
  ClipboardTimeout :: Duration

record MessageConfig =
  Title :: string
  Body :: string

record MessagesConfig =
  RecordingStarted :: MessageConfig
  mTranscribing :: MessageConfig
  ConfigReloaded :: MessageConfig
  OperationCancelled :: MessageConfig
  RecordingAborted :: MessageConfig
  InjectionAborted :: MessageConfig

record NotificationsConfig =
  Enabled :: bool
  Type :: string
  Messages :: MessagesConfig

record Config =
  cRecording :: RecordingConfig
  cTranscription :: TranscriptionConfig
  cInjection :: InjectionConfig
  cNotifications :: NotificationsConfig

subsection \<open>MessagesConfig.Resolve\<close>

text \<open>
  \<^verbatim>\<open>Resolve\<close> reads the struct by reflection: field \<open>i\<close> of \<^verbatim>\<open>MessagesConfig\<close> has the
  toml tag \<open>field_tags ! i\<close> and the value \<open>field_values m ! i\<close>. The first loop fills
  \<^verbatim>\<open>tagToField\<close>, the second one walks \<^verbatim>\<open>MessageDefs\<close>.
\<close>

definition field_tags :: "string list" where
  "field_tags = [''recording_started'', ''transcribing'', ''config_reloaded'',
                 ''operation_cancelled'', ''recording_aborted'', ''injection_aborted'']"

definition field_values :: "MessagesConfig \<Rightarrow> MessageConfig list" where
  "field_values m = [RecordingStarted m, mTranscribing m, ConfigReloaded m,
                     OperationCancelled m, RecordingAborted m, InjectionAborted m]"

definition tagToField :: "string \<rightharpoonup> nat" where
  "tagToField = fold (\<lambda>i acc. acc(field_tags ! i \<mapsto> i)) [0..<length field_tags] Map.empty"

definition resolve_def :: "MessagesConfig \<Rightarrow> MessageDef \<Rightarrow> Message" where
  "resolve_def m d =
     (let msg0 = \<lparr>msg_Title = DefaultTitle d, msg_Body = DefaultBody d, IsError = def_IsError d\<rparr>
      in case tagToField (ConfigKey d) of
           Some idx \<Rightarrow>
             let userMsg = field_values m ! idx;
                 msg1 = (if Title userMsg \<noteq> [] then msg0\<lparr>msg_Title := Title userMsg\<rparr> else msg0)
             in (if Body userMsg \<noteq> [] then msg1\<lparr>msg_Body := Body userMsg\<rparr> else msg1)
         | None \<Rightarrow> msg0)"

definition Resolve :: "MessagesConfig \<Rightarrow> (MessageType \<rightharpoonup> Message)" where
  "Resolve m = fold (\<lambda>d result. result(def_Type d \<mapsto> resolve_def m d)) MessageDefs Map.empty"

text \<open>
  The value the user configured for a message type: the field of \<^verbatim>\<open>MessagesConfig\<close>
  declared for it.
\<close>

definition user_msg :: "MessagesConfig \<Rightarrow> MessageType \<Rightarrow> MessageConfig" where
  "user_msg m mt =
     (case mt of
        MsgRecordingStarted \<Rightarrow> RecordingStarted m
      | MsgTranscribing \<Rightarrow> mTranscribing m
      | MsgConfigReloaded \<Rightarrow> ConfigReloaded m
      | MsgOperationCancelled \<Rightarrow> OperationCancelled m
      | MsgRecordingAborted \<Rightarrow> RecordingAborted m
      | MsgInjectionAborted \<Rightarrow> InjectionAborted m)"

subsection \<open>Config.Validate\<close>

definition validCodes :: "string list" where
  "validCodes =
    [''en'', ''es'', ''fr'', ''de'', ''it'', ''pt'',
     ''ru'', ''ja'', ''ko'', ''zh'', ''ar'', ''hi'',
     ''nl'', ''sv'', ''da'', ''no'', ''fi'', ''pl'',
     ''tr'', ''he'', ''th'', ''vi'', ''id'', ''ms'',
     ''uk'', ''cs'', ''hu'', ''ro'', ''bg'', ''hr'',
     ''sk'', ''sl'', ''et'', ''lv'', ''lt'', ''mt'',
     ''cy'', ''ga'', ''eu'', ''ca'', ''gl'', ''is'',
     ''mk'', ''sq'', ''az'', ''be'', ''ka'', ''hy'',
     ''kk'', ''ky'', ''tg'', ''uz'', ''mn'', ''ne'',
     ''si'', ''km'', ''lo'', ''my'', ''fa'', ''ps'',
     ''ur'', ''bn'', ''ta'', ''te'', ''ml'', ''kn'',
     ''gu'', ''pa'', ''or'', ''as'', ''mr'', ''sa'',
     ''sw'', ''yo'', ''ig'', ''ha'', ''zu'', ''xh'',
     ''af'', ''am'', ''mg'', ''so'', ''sn'', ''rw'']"

definition isValidLanguageCode :: "string \<Rightarrow> bool" where
  "isValidLanguageCode code = (code \<in> set validCodes)"

definition language_error :: "TranscriptionConfig \<Rightarrow> error option" where
  "language_error t =
     (if Language t \<noteq> [] \<and> \<not> isValidLanguageCode (Language t) then
        Some (Error (''invalid transcription.language: '' @ Language t @
          '' (use empty string for auto-detect or ISO-639-1 codes like 'en', 'es', 'fr')''))
      else None)"

text \<open>
  The API key of a hosted provider: the configured one, else the environment variable.
\<close>

definition key_or_env :: "sys \<Rightarrow> TranscriptionConfig \<Rightarrow> string \<Rightarrow> string" where
  "key_or_env s t var = (if APIKey t = [] then Getenv s var else APIKey t)"

text \<open>The \<^verbatim>\<open>switch c.Transcription.Provider\<close> of \<^verbatim>\<open>Validate\<close>.\<close>

definition validate_provider :: "sys \<Rightarrow> TranscriptionConfig \<Rightarrow> error option" where
  "validate_provider s t =
     (if Provider t = ''openai'' then
        (if key_or_env s t ''OPENAI_API_KEY'' = [] then
           Some (Error ''OpenAI API key required: not found in config (transcription.api_key) or environment variable (OPENAI_API_KEY)'')
         else language_error t)
      else if Provider t = ''groq-transcription'' then
        (if key_or_env s t ''GROQ_API_KEY'' = [] then
           Some (Error ''Groq API key required: not found in config (transcription.api_key) or environment variable (GROQ_API_KEY)'')
         else case language_error t of
           Some err \<Rightarrow> Some err
         | None \<Rightarrow>
             if Model t \<noteq> [] \<and> Model t \<notin> {''whisper-large-v3'', ''whisper-large-v3-turbo''} then
               Some (Error (''invalid model for groq-transcription: '' @ Model t @
                 '' (must be whisper-large-v3 or whisper-large-v3-turbo)''))
             else None)
      else if Provider t = ''groq-translation'' then
        (if key_or_env s t ''GROQ_API_KEY'' = [] then
           Some (Error ''Groq API key required: not found in config (transcription.api_key) or environment variable (GROQ_API_KEY)'')
         else case language_error t of
           Some err \<Rightarrow> Some err
         | None \<Rightarrow>
             if Model t \<noteq> [] \<and> Model t \<noteq> ''whisper-large-v3'' then
               Some (Error (''invalid model for groq-translation: '' @ Model t @
                 '' (must be whisper-large-v3, turbo version not supported for translation)''))
             else None)
      else if Provider t = ''mistral-transcription'' then
        (if key_or_env s t ''MISTRAL_API_KEY'' = [] then
           Some (Error ''Mistral API key required: not found in config (transcription.api_key) or environment variable (MISTRAL_API_KEY)'')
         else case language_error t of
           Some err \<Rightarrow> Some err
         | None \<Rightarrow>
             if Model t \<noteq> [] \<and> Model t \<notin> {''voxtral-mini-latest'', ''voxtral-mini-2507''} then
               Some (Error (''invalid model for mistral-transcription: '' @ Model t @
                 '' (must be voxtral-mini-latest or voxtral-mini-2507)''))
             else None)
      else if Provider t = ''whisper-cpp'' then
        (if ServerURL t = [] then
           Some (Error ''whisper.cpp server URL required: set transcription.server_url in config (e.g., http://192.168.10.37:8025/inference)'')
         else language_error t)
      else
        Some (Error (''unsupported transcription.provider: '' @ Provider t @
          '' (must be openai, groq-transcription, groq-translation, mistral-transcription, or whisper-cpp)'')))"

text \<open>The loop over \<^verbatim>\<open>c.Injection.Backends\<close>: the first unknown backend is the error.\<close>

fun validate_backends :: "sys \<Rightarrow> string list \<Rightarrow> error option" where
  "validate_backends s [] = None"
| "validate_backends s (backend # rest) =
     (if backend \<notin> {''ydotool'', ''wtype'', ''clipboard''} then
        Some (Error (''invalid injection.backends: unknown backend '' @ fmt_q_string s backend @
          '' (must be ydotool, wtype, or clipboard)''))
      else validate_backends s rest)"

definition validate_recording :: "sys \<Rightarrow> RecordingConfig \<Rightarrow> error option" where
  "validate_recording s r =
     (if SampleRate r \<le> 0 then
        Some (Error (''invalid recording.sample_rate: '' @ fmt_d (SampleRate r)))
      else if Channels r \<le> 0 then
        Some (Error (''invalid recording.channels: '' @ fmt_d (Channels r)))
      else if BufferSize r \<le> 0 then
        Some (Error (''invalid recording.buffer_size: '' @ fmt_d (BufferSize r)))
      else if ChannelBufferSize r \<le> 0 then
        Some (Error (''invalid recording.channel_buffer_size: '' @ fmt_d (ChannelBufferSize r)))
      else if Format r = [] then
        Some (Error ''invalid recording.format: empty'')
      else if Timeout r \<le> 0 then
        Some (Error (''invalid recording.timeout: '' @ fmt_v_Duration s (Timeout r)))
      else None)"

definition validate_injection :: "sys \<Rightarrow> InjectionConfig \<Rightarrow> error option" where
  "validate_injection s i =
     (if length (Backends i) = 0 then
        Some (Error ''invalid injection.backends: empty (must have at least one backend)'')
      else case validate_backends s (Backends i) of
        Some err \<Rightarrow> Some err
      | None \<Rightarrow>
          if YdotoolTimeout i \<le> 0 then
            Some (Error (''invalid injection.ydotool_timeout: '' @ fmt_v_Duration s (YdotoolTimeout i)))
          else if WtypeTimeout i \<le> 0 then
            Some (Error (''invalid injection.wtype_timeout: '' @ fmt_v_Duration s (WtypeTimeout i)))
          else if ClipboardTimeout i \<le> 0 then
            Some (Error (''invalid injection.clipboard_timeout: '' @ fmt_v_Duration s (ClipboardTimeout i)))
          else None)"

definition validate_transcription :: "sys \<Rightarrow> TranscriptionConfig \<Rightarrow> error option" where
  "validate_transcription s t =
     (if Provider t = [] then Some (Error ''invalid transcription.provider: empty'')
      else case validate_provider s t of
        Some err \<Rightarrow> Some err
      | None \<Rightarrow>
          if Provider t \<noteq> ''whisper-cpp'' \<and> Model t = [] then
            Some (Error ''invalid transcription.model: empty'')
          else None)"

definition validate_notifications :: "NotificationsConfig \<Rightarrow> error option" where
  "validate_notifications n =
     (if Type n \<notin> {''desktop'', ''log'', ''none''} then
        Some (Error (''invalid notifications.type: '' @ Type n @ '' (must be desktop, log, or none)''))
      else None)"

text \<open>
  \<^verbatim>\<open>Validate\<close> returns the first error of its checks, in the order recording,
  transcription, injection, notifications; \<open>None\<close> is Go's \<^verbatim>\<open>nil\<close>.
\<close>

definition Validate :: "sys \<Rightarrow> Config \<Rightarrow> error option" where
  "Validate s c =
     (case validate_recording s (cRecording c) of
        Some err \<Rightarrow> Some err
      | None \<Rightarrow>
     (case validate_transcription s (cTranscription c) of
        Some err \<Rightarrow> Some err
      | None \<Rightarrow>
     (case validate_injection s (cInjection c) of
        Some err \<Rightarrow> Some err
      | None \<Rightarrow> validate_notifications (cNotifications c))))"

section \<open>Transcriber (package transcriber)\<close>

record TranscriberConfig =
  tc_Provider :: string
  tc_APIKey :: string
  tc_Language :: string
  tc_Model :: string
  tc_ServerURL :: string

text \<open>\<^verbatim>\<open>Config.ToTranscriberConfig\<close>: the transcriber's view of a configuration snapshot.\<close>

definition ToTranscriberConfig :: "sys \<Rightarrow> Config \<Rightarrow> TranscriberConfig" where
  "ToTranscriberConfig s c =
     (let t = cTranscription c;
          config = \<lparr>tc_Provider = Provider t, tc_APIKey = APIKey t, tc_Language = Language t,
                    tc_Model = Model t, tc_ServerURL = ServerURL t\<rparr>
      in if tc_APIKey config = [] then
           (if Provider t = ''openai'' then config\<lparr>tc_APIKey := Getenv s ''OPENAI_API_KEY''\<rparr>
            else if Provider t = ''groq-transcription'' \<or> Provider t = ''groq-translation'' then
              config\<lparr>tc_APIKey := Getenv s ''GROQ_API_KEY''\<rparr>
            else if Provider t = ''mistral-transcription'' then
              config\<lparr>tc_APIKey := Getenv s ''MISTRAL_API_KEY''\<rparr>
            else config)
         else config)"

record WhisperCppAdapter =
  serverURL :: string
  wc_config :: TranscriberConfig
  client_Timeout :: Duration

definition NewWhisperCppAdapter :: "TranscriberConfig \<Rightarrow> WhisperCppAdapter" where
  "NewWhisperCppAdapter config =
     \<lparr>serverURL = tc_ServerURL config, wc_config = config, client_Timeout = 60 * Second\<rparr>"

record MistralAdapter =
  client_APIKey :: string
  client_BaseURL :: string
  mi_config :: TranscriberConfig

definition NewMistralAdapter :: "TranscriberConfig \<Rightarrow> MistralAdapter" where
  "NewMistralAdapter config =
     \<lparr>client_APIKey = tc_APIKey config, client_BaseURL = ''https://api.mistral.ai/v1'',
      mi_config = config\<rparr>"

text \<open>
  The adapters \<^verbatim>\<open>NewTranscriber\<close> can choose. An OpenAI or Groq adapter is
  represented by the configuration it is built from; \<^verbatim>\<open>NewSimpleTranscriber\<close> pairs the
  configuration with the adapter.
\<close>

datatype TranscriptionAdapter =
    OpenAIAdapter TranscriberConfig
  | GroqTranscriptionAdapter TranscriberConfig
  | GroqTranslationAdapter TranscriberConfig
  | WhisperCpp WhisperCppAdapter

datatype Transcriber = SimpleTranscriber TranscriberConfig TranscriptionAdapter

definition NewTranscriber :: "TranscriberConfig \<Rightarrow> error + Transcriber" where
  "NewTranscriber config =
     (if tc_Provider config = ''openai'' then
        (if tc_APIKey config = [] then Inl (Error ''OpenAI API key required'')
         else Inr (SimpleTranscriber config (OpenAIAdapter config)))
      else if tc_Provider config = ''groq-transcription'' then
        (if tc_APIKey config = [] then Inl (Error ''Groq API key required'')
         else Inr (SimpleTranscriber config (GroqTranscriptionAdapter config)))
      else if tc_Provider config = ''groq-translation'' then
        (if tc_APIKey config = [] then Inl (Error ''Groq API key required'')
         else Inr (SimpleTranscriber config (GroqTranslationAdapter config)))
      else if tc_Provider config = ''whisper-cpp'' then
        (if tc_ServerURL config = [] then Inl (Error ''whisper.cpp server URL required'')
         else Inr (SimpleTranscriber config (WhisperCpp (NewWhisperCppAdapter config))))
      else Inl (Error (''unsupported provider: '' @ tc_Provider config)))"

subsection \<open>Transcribe\<close>

text \<open>
  The multipart form is kept as the list of its parts, the HTTP request as its method,
  URL and form. The trace of a call lists what left the process: the requests sent and
  the line logged for a response that is not OK (the log lines that carry the elapsed
  time are left out).
\<close>

datatype form_part = FormFile string string string | FormField string string

record HTTPRequest =
  req_Method :: string
  req_URL :: string
  req_Form :: "form_part list"

record HTTPResponse =
  StatusCode :: int
  resp_Body :: string

record AudioRequest =
  ar_Model :: string
  ar_Reader :: string
  ar_FilePath :: string
  ar_Language :: string

datatype tr_event =
    HTTPSend HTTPRequest
  | CreateTranscription AudioRequest
  | LogPrintf string

text \<open>
  What the adapters call and this repository's sources do not define here:
  \<^verbatim>\<open>convertToWAV\<close>, the multipart writer (a step of it may fail), the construction of the
  request from the URL, the HTTP client, the JSON decoder of the response body (giving
  the \<^verbatim>\<open>text\<close> field), and the client library's \<^verbatim>\<open>CreateTranscription\<close>.
\<close>

record tr_env =
  convertToWAV :: "string \<Rightarrow> error + string"
  writer_err :: "string \<Rightarrow> error option"
  NewRequest_err :: "string \<Rightarrow> error option"
  client_Do :: "HTTPRequest \<Rightarrow> error + HTTPResponse"
  json_Decode :: "string \<Rightarrow> error + string"
  client_CreateTranscription :: "AudioRequest \<Rightarrow> error + string"

text \<open>
  The steps of writing the form, each with the prefix of its error: the first step the
  writer fails at ends \<^verbatim>\<open>Transcribe\<close>.
\<close>

fun first_writer_err :: "tr_env \<Rightarrow> (string \<times> string) list \<Rightarrow> error option" where
  "first_writer_err env [] = None"
| "first_writer_err env ((step, prefix) # rest) =
     (case writer_err env step of
        Some err \<Rightarrow> Some (wrap prefix err)
      | None \<Rightarrow> first_writer_err env rest)"

definition whisper_form_steps :: "WhisperCppAdapter \<Rightarrow> (string \<times> string) list" where
  "whisper_form_steps a =
     [(''CreateFormFile'', ''create form file: ''), (''Write'', ''write audio data: '')] @
     (if tc_Language (wc_config a) \<noteq> [] then [(''language'', ''write language field: '')] else []) @
     [(''temperature'', ''write temperature field: ''),
      (''temperature_inc'', ''write temperature_inc field: ''),
      (''response_format'', ''write response_format field: ''),
      (''Close'', ''close multipart writer: '')]"

definition whisper_request :: "WhisperCppAdapter \<Rightarrow> string \<Rightarrow> HTTPRequest" where
  "whisper_request a wavData =
     \<lparr>req_Method = ''POST'', req_URL = serverURL a,
      req_Form =
        [FormFile ''file'' ''audio.wav'' wavData] @
        (if tc_Language (wc_config a) \<noteq> [] then [FormField ''language'' (tc_Language (wc_config a))] else []) @
        [FormField ''temperature'' ''0.0'', FormField ''temperature_inc'' ''0.2'',
         FormField ''response_format'' ''json'']\<rparr>"

definition http_StatusOK :: int where
  "http_StatusOK = 200"

definition WhisperCpp_Transcribe ::
    "WhisperCppAdapter \<Rightarrow> tr_env \<Rightarrow> string \<Rightarrow> (error + string) \<times> tr_event list" where
  "WhisperCpp_Transcribe a env audioData =
     (if length audioData = 0 then (Inr [], [])
      else case convertToWAV env audioData of
        Inl err \<Rightarrow> (Inl (wrap ''convert to WAV: '' err), [])
      | Inr wavData \<Rightarrow>
     (case first_writer_err env (whisper_form_steps a) of
        Some err \<Rightarrow> (Inl err, [])
      | None \<Rightarrow>
     (case NewRequest_err env (serverURL a) of
        Some err \<Rightarrow> (Inl (wrap ''create request: '' err), [])
      | None \<Rightarrow>
     (let req = whisper_request a wavData in
      case client_Do env req of
        Inl err \<Rightarrow> (Inl (wrap ''send request to whisper.cpp server: '' err), [HTTPSend req])
      | Inr resp \<Rightarrow>
          if StatusCode resp \<noteq> http_StatusOK then
            (Inl (Error (''whisper.cpp server error: status '' @ fmt_d (StatusCode resp))),
             [HTTPSend req,
              LogPrintf (''whisper-cpp-adapter: server returned status '' @ fmt_d (StatusCode resp) @
                         '': '' @ resp_Body resp)])
          else
            (case json_Decode env (resp_Body resp) of
               Inl err \<Rightarrow> (Inl (wrap ''decode response: '' err), [HTTPSend req])
             | Inr text \<Rightarrow> (Inr text, [HTTPSend req]))))))"

definition Mistral_Transcribe ::
    "MistralAdapter \<Rightarrow> tr_env \<Rightarrow> string \<Rightarrow> (error + string) \<times> tr_event list" where
  "Mistral_Transcribe a env audioData =
     (if length audioData = 0 then (Inr [], [])
      else case convertToWAV env audioData of
        Inl err \<Rightarrow> (Inl (wrap ''convert to WAV: '' err), [])
      | Inr wavData \<Rightarrow>
          (let req = \<lparr>ar_Model = tc_Model (mi_config a), ar_Reader = wavData,
                      ar_FilePath = ''audio.wav'', ar_Language = tc_Language (mi_config a)\<rparr>
           in case client_CreateTranscription env req of
                Inl err \<Rightarrow> (Inl (wrap ''mistral transcription: '' err), [CreateTranscription req])
              | Inr text \<Rightarrow> (Inr text, [CreateTranscription req])))"

section \<open>Loading the configuration file (package config)\<close>

text \<open>
  The \<^verbatim>\<open>[injection]\<close> table of a configuration file: a key is present with its value or
  absent. \<^verbatim>\<open>mode\<close> is the legacy key; it is read by the second decoding only (into
  \<^verbatim>\<open>legacyConfig\<close>). The other tables are kept as they decode.
\<close>

record toml_injection =
  t_backends :: "string list option"
  t_mode :: "string option"
  t_ydotool_timeout :: "Duration option"
  t_wtype_timeout :: "Duration option"
  t_wtype_delay :: "Duration option"
  t_clipboard_timeout :: "Duration option"

record toml_doc =
  t_recording :: RecordingConfig
  t_transcription :: TranscriptionConfig
  t_injection :: toml_injection
  t_notifications :: NotificationsConfig

text \<open>Decoding leaves the zero value in a field whose key is absent.\<close>

definition or_zero :: "Duration option \<Rightarrow> Duration" where
  "or_zero v = (case v of None \<Rightarrow> 0 | Some d \<Rightarrow> d)"

definition decode_Config :: "toml_doc \<Rightarrow> Config" where
  "decode_Config doc =
     \<lparr>cRecording = t_recording doc,
      cTranscription = t_transcription doc,
      cInjection =
        \<lparr>Backends = (case t_backends (t_injection doc) of None \<Rightarrow> [] | Some bs \<Rightarrow> bs),
         YdotoolTimeout = or_zero (t_ydotool_timeout (t_injection doc)),
         WtypeTimeout = or_zero (t_wtype_timeout (t_injection doc)),
         WtypeDelay = or_zero (t_wtype_delay (t_injection doc)),
         ClipboardTimeout = or_zero (t_clipboard_timeout (t_injection doc))\<rparr>,
      cNotifications = t_notifications doc\<rparr>"

definition decode_legacy_Mode :: "toml_doc \<Rightarrow> string" where
  "decode_legacy_Mode doc = (case t_mode (t_injection doc) of None \<Rightarrow> [] | Some m \<Rightarrow> m)"

definition migrateInjectionMode :: "string \<Rightarrow> Config \<Rightarrow> Config" where
  "migrateInjectionMode mode c =
     (let backends =
            (if mode = ''clipboard'' then [''clipboard'']
             else if mode = ''type'' then [''wtype'']
             else if mode = ''fallback'' then [''wtype'', ''clipboard'']
             else [''ydotool'', ''wtype'', ''clipboard'']);
          i1 = (cInjection c)\<lparr>Backends := backends\<rparr>;
          i2 = (if YdotoolTimeout i1 = 0 then i1\<lparr>YdotoolTimeout := 5 * Second\<rparr> else i1)
      in c\<lparr>cInjection := i2\<rparr>)"

text \<open>
  The file system as \<^verbatim>\<open>Load\<close> sees it: the user's configuration directory, the
  creation of the \<^verbatim>\<open>hyprvoice\<close> directory, the joining of paths, and the file at the
  configuration path: absent, unparsable (the decoder's error), or a document. Creating
  the default file may fail at \<^verbatim>\<open>os.Create\<close> or at \<^verbatim>\<open>WriteString\<close>.
\<close>

record config_fs =
  UserConfigDir :: "error + string"
  MkdirAll_err :: "error option"
  filepath_Join :: "string \<Rightarrow> string \<Rightarrow> string"
  config_file :: "(error + toml_doc) option"
  Create_err :: "error option"
  WriteString_err :: "error option"

definition GetConfigPath :: "config_fs \<Rightarrow> error + string" where
  "GetConfigPath fs =
     (case UserConfigDir fs of
        Inl err \<Rightarrow> Inl (wrap ''failed to get user config directory: '' err)
      | Inr configDir \<Rightarrow>
          (case MkdirAll_err fs of
             Some err \<Rightarrow> Inl (wrap ''failed to create config directory: '' err)
           | None \<Rightarrow> Inr (filepath_Join fs (filepath_Join fs configDir ''hyprvoice'') ''config.toml'')))"

definition no_message :: MessageConfig where
  "no_message = \<lparr>Title = [], Body = []\<rparr>"

definition no_messages :: MessagesConfig where
  "no_messages =
     \<lparr>RecordingStarted = no_message, mTranscribing = no_message, ConfigReloaded = no_message,
      OperationCancelled = no_message, RecordingAborted = no_message, InjectionAborted = no_message\<rparr>"

text \<open>The document \<^verbatim>\<open>SaveDefaultConfig\<close> writes.\<close>

definition default_doc :: toml_doc where
  "default_doc =
     \<lparr>t_recording = \<lparr>SampleRate = 16000, Channels = 1, Format = ''s16'', BufferSize = 8192,
                     Device = [], ChannelBufferSize = 30, Timeout = 5 * 60 * Second\<rparr>,
      t_transcription = \<lparr>Provider = ''openai'', APIKey = [], Language = [],
                         Model = ''whisper-1'', ServerURL = []\<rparr>,
      t_injection = \<lparr>t_backends = Some [''ydotool'', ''wtype'', ''clipboard''], t_mode = None,
                     t_ydotool_timeout = Some (5 * Second), t_wtype_timeout = Some (5 * Second),
                     t_wtype_delay = None, t_clipboard_timeout = Some (3 * Second)\<rparr>,
      t_notifications = \<lparr>Enabled = True, Type = ''desktop'', Messages = no_messages\<rparr>\<rparr>"

definition SaveDefaultConfig :: "config_fs \<Rightarrow> error option" where
  "SaveDefaultConfig fs =
     (case GetConfigPath fs of
        Inl err \<Rightarrow> Some err
      | Inr configPath \<Rightarrow>
          (case Create_err fs of
             Some err \<Rightarrow> Some (wrap ''failed to create config file: '' err)
           | None \<Rightarrow>
               (case WriteString_err fs of
                  Some err \<Rightarrow> Some (wrap ''failed to write config content: '' err)
                | None \<Rightarrow> None)))"

text \<open>\<^verbatim>\<open>Load\<close> once the file exists: both decodings and the migration.\<close>

definition load_file :: "string \<Rightarrow> error + toml_doc \<Rightarrow> error + Config" where
  "load_file configPath f =
     (case f of
        Inl err \<Rightarrow> Inl (Error (''failed to parse config file '' @ configPath @ '': '' @ msg err))
      | Inr doc \<Rightarrow>
          (let config = decode_Config doc
           in if length (Backends (cInjection config)) = 0
              then Inr (migrateInjectionMode (decode_legacy_Mode doc) config)
              else Inr config))"

text \<open>
  \<^verbatim>\<open>Load\<close>: when there is no file, the default one is written and \<^verbatim>\<open>Load\<close> runs again,
  on the file just written.
\<close>

definition Load :: "config_fs \<Rightarrow> error + Config" where
  "Load fs =
     (case GetConfigPath fs of
        Inl err \<Rightarrow> Inl err
      | Inr configPath \<Rightarrow>
          (case config_file fs of
             None \<Rightarrow>
               (case SaveDefaultConfig fs of
                  Some err \<Rightarrow> Inl (wrap ''failed to create default config: '' err)
                | None \<Rightarrow> load_file configPath (Inr default_doc))
           | Some f \<Rightarrow> load_file configPath f))"

text \<open>
  The forms of a file the migration claim compares. The legacy form has the key
  \<^verbatim>\<open>mode\<close> and no \<^verbatim>\<open>backends\<close>. The migrated form is the file with the migration
  written into it: no \<^verbatim>\<open>mode\<close>, the backend list the specification gives for the mode,
  and \<^verbatim>\<open>ydotool_timeout\<close> set to the five seconds the migration gives it where the file
  leaves it unset or zero. Every other key is the same in both.
\<close>

definition migrated_backends :: "string \<Rightarrow> string list" where
  "migrated_backends mode =
     (if mode = ''clipboard'' then [''clipboard'']
      else if mode = ''type'' then [''wtype'']
      else [''wtype'', ''clipboard''])"

definition legacy_form :: "toml_doc \<Rightarrow> string \<Rightarrow> toml_doc" where
  "legacy_form doc mode = doc\<lparr>t_injection := (t_injection doc)\<lparr>t_backends := None, t_mode := Some mode\<rparr>\<rparr>"

definition migrated_form :: "toml_doc \<Rightarrow> string \<Rightarrow> toml_doc" where
  "migrated_form doc mode =
     doc\<lparr>t_injection := (t_injection doc)
       \<lparr>t_backends := Some (migrated_backends mode), t_mode := None,
        t_ydotool_timeout :=
          Some (if or_zero (t_ydotool_timeout (t_injection doc)) = 0 then 5 * Second
                else or_zero (t_ydotool_timeout (t_injection doc)))\<rparr>\<rparr>"

text \<open>
  The new form as a user writes it by hand: \<^verbatim>\<open>backends\<close> in place of \<^verbatim>\<open>mode\<close> and
  nothing else changed. \<^verbatim>\<open>Validate\<close> accepts its injection section only when the file
  sets \<^verbatim>\<open>ydotool_timeout\<close> above zero.
\<close>

definition backends_form :: "toml_doc \<Rightarrow> string \<Rightarrow> toml_doc" where
  "backends_form doc mode =
     doc\<lparr>t_injection := (t_injection doc)\<lparr>t_backends := Some (migrated_backends mode), t_mode := None\<rparr>\<rparr>"

definition with_file :: "config_fs \<Rightarrow> toml_doc \<Rightarrow> config_fs" where
  "with_file fs doc = fs\<lparr>config_file := Some (Inr doc)\<rparr>"

section \<open>Daemon (package daemon)\<close>

subsection \<open>Formatting a byte\<close>

text \<open>
  \<^verbatim>\<open>%c\<close> prints the byte as the character with that code point, in UTF-8; \<^verbatim>\<open>%q\<close>
  prints it as a single-quoted character literal, escaped as Go source would be
  (\<^verbatim>\<open>strconv.AppendQuoteRune\<close>).
\<close>

definition utf8_rune :: "nat \<Rightarrow> string" where
  "utf8_rune r =
     (if r < 128 then [char_of r] else [char_of (192 + r div 64), char_of (128 + r mod 64)])"

definition fmt_c :: "char \<Rightarrow> string" where
  "fmt_c b = utf8_rune (of_char b)"

definition IsPrint :: "nat \<Rightarrow> bool" where
  "IsPrint r = ((32 \<le> r \<and> r \<le> 126) \<or> (161 \<le> r \<and> r \<le> 255 \<and> r \<noteq> 173))"

definition lowerhex :: "nat \<Rightarrow> char" where
  "lowerhex n = ''0123456789abcdef'' ! n"

definition backslash :: char where
  "backslash = CHR 0x5C"

definition quote :: char where
  "quote = CHR 0x27"

definition escaped_rune :: "nat \<Rightarrow> string" where
  "escaped_rune r =
     (if r = of_char quote \<or> r = of_char backslash then [backslash, char_of r]
      else if IsPrint r then utf8_rune r
      else if r = 7 then [backslash, CHR ''a'']
      else if r = 8 then [backslash, CHR ''b'']
      else if r = 12 then [backslash, CHR ''f'']
      else if r = 10 then [backslash, CHR ''n'']
      else if r = 13 then [backslash, CHR ''r'']
      else if r = 9 then [backslash, CHR ''t'']
      else if r = 11 then [backslash, CHR ''v'']
      else if r < 32 \<or> r = 127 then [backslash, CHR ''x'', lowerhex (r div 16), lowerhex (r mod 16)]
      else [backslash, CHR ''u'', lowerhex (r div 4096 mod 16), lowerhex (r div 256 mod 16),
            lowerhex (r div 16 mod 16), lowerhex (r mod 16)])"

definition fmt_q_byte :: "char \<Rightarrow> string" where
  "fmt_q_byte b = [quote] @ escaped_rune (of_char b) @ [quote]"

subsection \<open>Pipeline status and notifier\<close>

text \<open>
  \<^verbatim>\<open>pipeline.Status\<close> is a string type; these are its constants. \<^verbatim>\<open>pipeline.Inject\<close> is
  the only action.
\<close>

type_synonym Status = string

definition Idle :: Status where
  "Idle = ''idle''"

definition Recording :: Status where
  "Recording = ''recording''"

definition Transcribing :: Status where
  "Transcribing = ''transcribing''"

definition Injecting :: Status where
  "Injecting = ''injecting''"

datatype Action = ActionInject

datatype Notifier =
    Desktop "MessageType \<rightharpoonup> Message"
  | Log "MessageType \<rightharpoonup> Message"
  | Nop

definition NewNotifier :: "string \<Rightarrow> (MessageType \<rightharpoonup> Message) \<Rightarrow> Notifier" where
  "NewNotifier notifType messages =
     (if notifType = ''desktop'' then Desktop messages
      else if notifType = ''log'' then Log messages
      else Nop)"

subsection \<open>The daemon and its handlers\<close>

text \<open>
  A pipeline object is a reference (a number, in order of construction). The status a
  pipeline reports is written by its own driver, not by the daemon: \<open>pstatus\<close> gives it
  for each reference. What the daemon does to other components is recorded in \<open>trace\<close>,
  in order: constructing, running and stopping a pipeline, sending an action, sending a
  notification (in a goroutine or directly), starting the error monitor, cancelling the
  daemon context, and the lines it logs.
\<close>

datatype d_event =
    PipelineNew nat Config
  | PipelineRun nat
  | PipelineStop nat
  | ActionSend nat Action
  | GoSend MessageType
  | NotifierSend MessageType
  | GoMonitorPipelineErrors nat
  | LogLine string

record Daemon =
  notifier :: Notifier
  configMgr :: Config
  ctx_cancelled :: bool
  pipeline :: "nat option"
  pstatus :: "nat \<Rightarrow> Status"
  created :: nat
  trace :: "d_event list"

definition emit :: "d_event list \<Rightarrow> Daemon \<Rightarrow> Daemon" where
  "emit evs d = d\<lparr>trace := trace d @ evs\<rparr>"

definition status :: "Daemon \<Rightarrow> Status" where
  "status d = (case pipeline d of None \<Rightarrow> Idle | Some p \<Rightarrow> pstatus d p)"

definition stopPipeline :: "Daemon \<Rightarrow> Daemon" where
  "stopPipeline d =
     (let p = pipeline d; d1 = d\<lparr>pipeline := None\<rparr>
      in case p of None \<Rightarrow> d1 | Some q \<Rightarrow> emit [PipelineStop q] d1)"

definition onConfigReload :: "Daemon \<Rightarrow> Daemon" where
  "onConfigReload d =
     (let d1 = stopPipeline (emit [LogLine ''Config reloaded, restarting pipeline''] d);
          conf = configMgr d1;
          d2 = d1\<lparr>notifier := NewNotifier (Type (cNotifications conf))
                                           (Resolve (Messages (cNotifications conf)))\<rparr>
      in emit [NotifierSend MsgConfigReloaded] d2)"

definition toggle :: "Daemon \<Rightarrow> Daemon" where
  "toggle d =
     (let conf = configMgr d; st = status d
      in if st = Idle then
           (let p = created d;
                d1 = emit [PipelineNew p conf, PipelineRun p] (d\<lparr>created := Suc p\<rparr>);
                d2 = d1\<lparr>pipeline := Some p\<rparr>
            in emit [GoSend MsgRecordingStarted, GoMonitorPipelineErrors p] d2)
         else if st = Recording then
           emit [GoSend MsgRecordingAborted] (stopPipeline d)
         else if st = Transcribing then
           (let d1 = (case pipeline d of
                        Some p \<Rightarrow>
                          emit [LogLine ''Daemon: Sending inject action to pipeline'',
                                ActionSend p ActionInject] d
                      | None \<Rightarrow> d)
            in emit [GoSend MsgTranscribing] d1)
         else if st = Injecting then
           emit [GoSend MsgInjectionAborted] (stopPipeline d)
         else d)"

definition cancelPipeline :: "Daemon \<Rightarrow> Daemon" where
  "cancelPipeline d =
     (if status d = Idle then
        emit [LogLine ''Daemon: Cancel requested but pipeline is idle, ignoring''] d
      else emit [GoSend MsgOperationCancelled] (stopPipeline d))"

text \<open>
  A client connection, as \<^verbatim>\<open>handle\<close> reads it: the bytes the client sends, and the
  error the read ends with when they run out (\<^verbatim>\<open>io.EOF\<close> when the client closes the
  connection). \<^verbatim>\<open>ReadString\<close> returns the bytes up to and including the first
  delimiter, or all the bytes and that error when there is no delimiter.
\<close>

record Conn =
  received :: string
  read_err :: error

definition EOF :: error where
  "EOF = Error ''EOF''"

definition newline :: char where
  "newline = CHR 0x0A"

definition ReadString :: "Conn \<Rightarrow> char \<Rightarrow> string \<times> error option" where
  "ReadString c delim =
     (if delim \<in> set (received c)
      then (takeWhile (\<lambda>x. x \<noteq> delim) (received c) @ [delim], None)
      else (received c, Some (read_err c)))"

text \<open>
  \<^verbatim>\<open>handle\<close> returns what it writes to the connection, and the daemon afterwards.
  \<^verbatim>\<open>bus.ProtoVer\<close> is a constant of the bus package.
\<close>

definition handle :: "string \<Rightarrow> Daemon \<Rightarrow> Conn \<Rightarrow> string \<times> Daemon" where
  "handle ProtoVer d c =
     (case ReadString c newline of
        (line, Some err) \<Rightarrow>
          (''ERR read_error: '' @ msg err @ [newline],
           emit [LogLine (''Client read error: '' @ msg err)] d)
      | (line, None) \<Rightarrow>
          (case line of
             [] \<Rightarrow> (''ERR empty'' @ [newline], d)
           | cmd # rest \<Rightarrow>
               if cmd = CHR ''t'' then (''OK toggled'' @ [newline], toggle d)
               else if cmd = CHR ''c'' then (''OK cancelled'' @ [newline], cancelPipeline d)
               else if cmd = CHR ''s'' then (''STATUS status='' @ status d @ [newline], d)
               else if cmd = CHR ''v'' then (''STATUS proto='' @ ProtoVer @ [newline], d)
               else if cmd = CHR ''q'' then (''OK quitting'' @ [newline], d\<lparr>ctx_cancelled := True\<rparr>)
               else (''ERR unknown='' @ fmt_q_byte cmd @ [newline],
                     emit [LogLine (''Unknown command: '' @ fmt_c cmd)] d)))"

text \<open>
  Modelled from the spec: the pipeline's driver, whose source is not part of this
  development. A session ends with teardown, after which the pipeline reports
  \<^verbatim>\<open>Idle\<close>; the daemon is not told and keeps its reference.
\<close>

definition pipeline_teardown :: "nat \<Rightarrow> Daemon \<Rightarrow> Daemon" where
  "pipeline_teardown p d = d\<lparr>pstatus := (pstatus d)(p := Idle)\<rparr>"

definition initial_Daemon :: "Config \<Rightarrow> Daemon" where
  "initial_Daemon conf =
     \<lparr>notifier = NewNotifier (Type (cNotifications conf)) (Resolve (Messages (cNotifications conf))),
      configMgr = conf, ctx_cancelled = False, pipeline = None,
      pstatus = (\<lambda>p. Recording), created = 0, trace = []\<rparr>"

section \<open>Control-bus client (package main)\<close>

datatype subcommand = toggleCmd | cancelCmd | statusCmd | versionCmd | stopCmd

definition command_byte :: "subcommand \<Rightarrow> char" where
  "command_byte sub =
     (case sub of toggleCmd \<Rightarrow> CHR ''t'' | cancelCmd \<Rightarrow> CHR ''c'' | statusCmd \<Rightarrow> CHR ''s''
      | versionCmd \<Rightarrow> CHR ''v'' | stopCmd \<Rightarrow> CHR ''q'')"

definition failure_prefix :: "subcommand \<Rightarrow> string" where
  "failure_prefix sub =
     (case sub of
        toggleCmd \<Rightarrow> ''failed to toggle recording: ''
      | cancelCmd \<Rightarrow> ''failed to cancel operation: ''
      | statusCmd \<Rightarrow> ''failed to get status: ''
      | versionCmd \<Rightarrow> ''failed to get version: ''
      | stopCmd \<Rightarrow> ''failed to stop daemon: '')"

text \<open>
  \<^verbatim>\<open>bus.SendCommand\<close> is given: it returns the daemon's reply and an error. \<^verbatim>\<open>RunE\<close> of a
  subcommand returns its error and what it prints on standard output.
\<close>

type_synonym SendCommand = "char \<Rightarrow> string \<times> error option"

definition RunE :: "subcommand \<Rightarrow> SendCommand \<Rightarrow> error option \<times> string" where
  "RunE sub send =
     (case send (command_byte sub) of
        (resp, Some err) \<Rightarrow> (Some (wrap (failure_prefix sub) err), [])
      | (resp, None) \<Rightarrow> (None, resp))"

text \<open>
  \<^verbatim>\<open>rootCmd.Execute()\<close> runs the subcommand and returns its error. \<^verbatim>\<open>main\<close> assigns that
  error to the blank identifier and returns, and a Go program whose \<^verbatim>\<open>main\<close> returns
  exits with status 0.
\<close>

definition Execute :: "subcommand \<Rightarrow> SendCommand \<Rightarrow> error option \<times> string" where
  "Execute sub send = RunE sub send"

record process_result =
  exit_code :: int
  stdout :: string
  discarded_error :: "error option"

definition main :: "subcommand \<Rightarrow> SendCommand \<Rightarrow> process_result" where
  "main sub send =
     (case Execute sub send of
        (err, out) \<Rightarrow> \<lparr>exit_code = 0, stdout = out, discarded_error = err\<rparr>)"

section \<open>Example inputs\<close>

text \<open>
  A snapshot with the Mistral provider: the transcription section of the test case
  \<^verbatim>\<open>valid mistral-transcription config\<close>, the other sections as the pipeline tests
  configure them.
\<close>

definition mistral_Config :: Config where
  "mistral_Config =
     \<lparr>cRecording = \<lparr>SampleRate = 16000, Channels = 1, Format = ''s16'', BufferSize = 8192,
                    Device = [], ChannelBufferSize = 30, Timeout = 5 * 60 * Second\<rparr>,
      cTranscription = \<lparr>Provider = ''mistral-transcription'', APIKey = ''test-key'',
                        Language = ''de'', Model = ''voxtral-mini-latest'', ServerURL = []\<rparr>,
      cInjection = \<lparr>Backends = [''ydotool'', ''wtype'', ''clipboard''],
                    YdotoolTimeout = 5 * Second, WtypeTimeout = 5 * Second, WtypeDelay = 0,
                    ClipboardTimeout = 3 * Second\<rparr>,
      cNotifications = \<lparr>Enabled = True, Type = ''log'', Messages = no_messages\<rparr>\<rparr>"

definition example_InjectorConfig :: InjectorConfig where
  "example_InjectorConfig =
     \<lparr>Mode = ''clipboard'', RestoreClipboard = False, inj_WtypeTimeout = 5 * Second,
      inj_WtypeDelay = 0, inj_ClipboardTimeout = 3 * Second\<rparr>"

text \<open>An environment where every tool is installed and works.\<close>

definition working_inj_env :: inj_env where
  "working_inj_env =
     \<lparr>checkClipboardAvailable = None, getClipboard = (\<lambda>t. ([], None)),
      setClipboard = (\<lambda>s t. None), lookPath_wtype = None,
      inj_getenv = (\<lambda>v. ''set''), ctx_done_after = None, run_wtype = (\<lambda>s t. None)\<rparr>"

definition example_whisper :: WhisperCppAdapter where
  "example_whisper = NewWhisperCppAdapter
     \<lparr>tc_Provider = ''whisper-cpp'', tc_APIKey = [], tc_Language = ''en'', tc_Model = [],
      tc_ServerURL = ''http://localhost:8025/inference''\<rparr>"

text \<open>An environment where nothing fails locally and the server answers \<open>resp\<close>.\<close>

definition server_env :: "HTTPResponse \<Rightarrow> tr_env" where
  "server_env resp =
     \<lparr>convertToWAV = (\<lambda>pcm. Inr (''RIFF'' @ pcm)), writer_err = (\<lambda>step. None),
      NewRequest_err = (\<lambda>url. None), client_Do = (\<lambda>req. Inr resp),
      json_Decode = (\<lambda>body. Inr body), client_CreateTranscription = (\<lambda>req. Inr [])\<rparr>"

definition default_Config :: Config where
  "default_Config = decode_Config default_doc"

text \<open>
  The daemon after one whole session: a toggle from the initial state, then the
  pipeline's teardown.
\<close>

definition finished_session :: Daemon where
  "finished_session = pipeline_teardown 0 (toggle (initial_Daemon default_Config))"

text \<open>
  The legacy file of the test \<^verbatim>\<open>migrates legacy mode=fallback to backends\<close>: it has no
  \<^verbatim>\<open>ydotool_timeout\<close> key.
\<close>

definition legacy_test_doc :: toml_doc where
  "legacy_test_doc =
     \<lparr>t_recording = \<lparr>SampleRate = 16000, Channels = 1, Format = ''s16'', BufferSize = 8192,
                     Device = [], ChannelBufferSize = 30, Timeout = 5 * 60 * Second\<rparr>,
      t_transcription = \<lparr>Provider = ''openai'', APIKey = ''test-key'', Language = [],
                         Model = ''whisper-1'', ServerURL = []\<rparr>,
      t_injection = \<lparr>t_backends = None, t_mode = Some ''fallback'',
                     t_ydotool_timeout = None, t_wtype_timeout = Some (5 * Second),
                     t_wtype_delay = None, t_clipboard_timeout = Some (3 * Second)\<rparr>,
      t_notifications = \<lparr>Enabled = True, Type = ''log'', Messages = no_messages\<rparr>\<rparr>"

definition example_fs :: config_fs where
  "example_fs =
     \<lparr>UserConfigDir = Inr ''/home/user/.config'', MkdirAll_err = None,
      filepath_Join = (\<lambda>a b. a @ ''/'' @ b), config_file = None,
      Create_err = None, WriteString_err = None\<rparr>"

text \<open>
  The legacy test file with \<^verbatim>\<open>ydotool_timeout = "1s"\<close> added, and a process
  environment with no variable set (the formatting functions stand for the library's;
  an accepted configuration does not reach them).
\<close>

definition legacy_test_doc_1s :: toml_doc where
  "legacy_test_doc_1s =
     legacy_test_doc\<lparr>t_injection := (t_injection legacy_test_doc)\<lparr>t_ydotool_timeout := Some Second\<rparr>\<rparr>"

definition example_sys :: sys where
  "example_sys = \<lparr>Getenv = (\<lambda>v. []), fmt_v_Duration = (\<lambda>d. []), fmt_q_string = (\<lambda>s. s)\<rparr>"

text \<open>Overrides that set one title to the empty string and one body to a text.\<close>

definition example_messages :: MessagesConfig where
  "example_messages =
     no_messages\<lparr>RecordingStarted := \<lparr>Title = [], Body = ''REC''\<rparr>\<rparr>"

text \<open>A bus whose connection to the daemon is refused, and one whose daemon answers an error.\<close>

definition refused_SendCommand :: SendCommand where
  "refused_SendCommand b =
     ([], Some (Error ''dial unix /run/user/1000/hyprvoice.sock: connect: connection refused''))"

definition ERR_SendCommand :: SendCommand where
  "ERR_SendCommand b = (''ERR read_error: EOF'' @ [newline], None)"

section \<open>Theorems\<close>

subsection \<open>Injection of the empty text\<close>

lemma clipboard_stage_not_empty_text_error:
  "fst (clipboard_stage cfg env text) \<noteq> Inl (Error ''cannot inject empty text'')"
  by (simp add: clipboard_stage_def wrap_def Let_def split: option.splits)

lemma typeText_expired_runs_nothing:
  "timeout \<le> 0 \<Longrightarrow> RunWtype text \<notin> set (snd (typeText env text timeout delay))"
  by (auto simp: typeText_def WithTimeout_def checkWtypeAvailable_def Let_def
      split: prod.splits option.splits if_splits)

text \<open>
  Claim C4. For every injector configuration and every environment, \<^verbatim>\<open>Inject\<close> of the
  empty string returns the error \<^verbatim>\<open>cannot inject empty text\<close> and performs no external
  operation at all: no clipboard check, read or write, no lookup or run of the typing
  tool. The error is distinct: \<^verbatim>\<open>Inject\<close> returns this error for the empty text only.
\<close>

theorem Inject_empty_text:
  "Inject cfg env '''' = (Some (Error ''cannot inject empty text''), [])
   \<and> ((fst (Inject cfg env text) = Some (Error ''cannot inject empty text'')) = (text = ''''))"
proof -
  have a: "Inject cfg env '''' = (Some (Error ''cannot inject empty text''), [])"
    by (simp add: Inject_def)
  have b: "text \<noteq> '''' \<Longrightarrow> fst (Inject cfg env text) \<noteq> Some (Error ''cannot inject empty text'')"
    using clipboard_stage_not_empty_text_error [of cfg env "text"]
    by (auto simp: Inject_def wrap_def split: prod.splits sum.splits option.splits)
  from a b show ?thesis by auto
qed

theorem Inject_empty_text_witness:
  "Inject example_InjectorConfig working_inj_env '''' = (Some (Error ''cannot inject empty text''), [])
   \<and> fst (Inject example_InjectorConfig working_inj_env ''hello'') \<noteq> Some (Error ''cannot inject empty text'')"
  using Inject_empty_text [of example_InjectorConfig working_inj_env "''hello''"] by simp

subsection \<open>Validation and the transcriber factory\<close>

lemma NewTranscriber_succeeds_other_providers:
  assumes "Validate s c = None" and "Provider (cTranscription c) \<noteq> ''mistral-transcription''"
  shows "\<exists>t. NewTranscriber (ToTranscriberConfig s c) = Inr t"
proof -
  from assms(1) have "validate_transcription s (cTranscription c) = None"
    by (simp add: Validate_def split: option.splits)
  then have "validate_provider s (cTranscription c) = None"
    by (simp add: validate_transcription_def split: if_splits option.splits)
  with assms(2) show ?thesis
    by (auto simp: validate_provider_def NewTranscriber_def ToTranscriberConfig_def Let_def key_or_env_def
        split: if_splits)
qed

text \<open>
  Claim C1. The claim is that \<^verbatim>\<open>NewTranscriber\<close> succeeds on the transcriber view of every
  snapshot \<^verbatim>\<open>Validate\<close> accepts. It fails on the code: the snapshot with provider
  \<^verbatim>\<open>mistral-transcription\<close> and a key passes \<^verbatim>\<open>Validate\<close> in every environment, and
  \<^verbatim>\<open>NewTranscriber\<close>, which has no case for that provider, returns the error
  \<^verbatim>\<open>unsupported provider: mistral-transcription\<close>.
\<close>

theorem NewTranscriber_rejects_validated_mistral:
  "Validate s mistral_Config = None
   \<and> NewTranscriber (ToTranscriberConfig s mistral_Config) =
       Inl (Error ''unsupported provider: mistral-transcription'')"
proof -
  have v: "Validate s mistral_Config = None"
    by (simp add: mistral_Config_def Validate_def validate_recording_def validate_transcription_def
        validate_provider_def key_or_env_def language_error_def isValidLanguageCode_def validCodes_def
        validate_injection_def validate_notifications_def Second_def)
  have n: "NewTranscriber (ToTranscriberConfig s mistral_Config) =
             Inl (Error ''unsupported provider: mistral-transcription'')"
    by (simp add: mistral_Config_def NewTranscriber_def ToTranscriberConfig_def Let_def)
  from v n show ?thesis by simp
qed

subsection \<open>Transcribe\<close>

text \<open>
  Claim C3. \<^verbatim>\<open>Transcribe\<close> of a zero-length audio buffer returns the empty string and no
  error, and its trace is empty: no request is built or sent. This holds for the
  whisper.cpp adapter and for the Mistral adapter, in every environment.
\<close>

theorem Transcribe_empty_audio:
  "WhisperCpp_Transcribe a env [] = (Inr [], []) \<and> Mistral_Transcribe m env' [] = (Inr [], [])"
  by (simp add: WhisperCpp_Transcribe_def Mistral_Transcribe_def)

lemma first_writer_err_None:
  "(\<And>step. writer_err env step = None) \<Longrightarrow> first_writer_err env steps = None"
  by (induction steps) auto

lemma fmt_d_404: "fmt_d 404 = ''404''"
  by (simp add: fmt_d_def digits.simps digit_char_def)

text \<open>
  Claim C8, as amended. When the whisper.cpp server answers with any status other than
  200, \<^verbatim>\<open>Transcribe\<close> returns the error \<^verbatim>\<open>whisper.cpp server error: status N\<close>, N the
  status code in decimal, and nothing else: the response body is written to the log, in
  full, and is no part of the error.
\<close>

theorem WhisperCpp_error_status:
  assumes "audioData \<noteq> []"
    and "convertToWAV env audioData = Inr wav"
    and "first_writer_err env (whisper_form_steps a) = None"
    and "NewRequest_err env (serverURL a) = None"
    and "client_Do env (whisper_request a wav) = Inr resp"
    and "StatusCode resp \<noteq> 200"
  shows "WhisperCpp_Transcribe a env audioData =
           (Inl (Error (''whisper.cpp server error: status '' @ fmt_d (StatusCode resp))),
            [HTTPSend (whisper_request a wav),
             LogPrintf (''whisper-cpp-adapter: server returned status '' @ fmt_d (StatusCode resp) @
                        '': '' @ resp_Body resp)])"
  using assms by (simp add: WhisperCpp_Transcribe_def http_StatusOK_def Let_def)

theorem WhisperCpp_error_status_witness:
  "WhisperCpp_Transcribe example_whisper (server_env \<lparr>StatusCode = 404, resp_Body = ''not found''\<rparr>) ''pcm'' =
     (Inl (Error ''whisper.cpp server error: status 404''),
      [HTTPSend (whisper_request example_whisper ''RIFFpcm''),
       LogPrintf ''whisper-cpp-adapter: server returned status 404: not found''])"
proof -
  let ?env = "server_env \<lparr>StatusCode = 404, resp_Body = ''not found''\<rparr>"
  have 1: "''pcm'' \<noteq> []" by simp
  have 2: "convertToWAV ?env ''pcm'' = Inr ''RIFFpcm''" by (simp add: server_env_def)
  have 3: "first_writer_err ?env (whisper_form_steps example_whisper) = None"
    by (simp add: server_env_def first_writer_err_None)
  have 4: "NewRequest_err ?env (serverURL example_whisper) = None" by (simp add: server_env_def)
  have 5: "client_Do ?env (whisper_request example_whisper ''RIFFpcm'') =
             Inr \<lparr>StatusCode = 404, resp_Body = ''not found''\<rparr>"
    by (simp add: server_env_def)
  have 6: "StatusCode \<lparr>StatusCode = 404, resp_Body = ''not found''\<rparr> \<noteq> 200" by simp
  from WhisperCpp_error_status [OF 1 2 3 4 5 6] fmt_d_404 show ?thesis by simp
qed

theorem WhisperCpp_error_omits_body_counterexample:
  "fst (WhisperCpp_Transcribe example_whisper (server_env \<lparr>StatusCode = 500, resp_Body = ''boom''\<rparr>) ''pcm'')
     = Inl (Error ''whisper.cpp server error: status 500'')
   \<and> CHR ''b'' \<notin> set ''whisper.cpp server error: status 500''"
  by (simp add: WhisperCpp_Transcribe_def server_env_def example_whisper_def NewWhisperCppAdapter_def
      whisper_form_steps_def http_StatusOK_def Let_def fmt_d_def digits.simps digit_char_def)

subsection \<open>The client's exit code\<close>

text \<open>
  Claim C5, as amended. For every control-bus subcommand and whatever
  \<^verbatim>\<open>bus.SendCommand\<close> returns, the process exits with code zero. When \<^verbatim>\<open>SendCommand\<close>
  returns no error the reply is printed on standard output; when it returns one, nothing
  is printed there, and the error the command returns (the cause after the
  subcommand's \<^verbatim>\<open>failed to ...\<close> prefix) is the one \<^verbatim>\<open>main\<close> discards.
\<close>

theorem main_exit_code:
  "exit_code (main sub send) = 0
   \<and> stdout (main sub send) =
       (case snd (send (command_byte sub)) of None \<Rightarrow> fst (send (command_byte sub)) | Some err \<Rightarrow> [])
   \<and> discarded_error (main sub send) =
       map_option (wrap (failure_prefix sub)) (snd (send (command_byte sub)))"
  by (simp add: main_def Execute_def RunE_def split: prod.splits option.splits)

theorem main_exit_code_witness:
  "exit_code (main statusCmd ERR_SendCommand) = 0
   \<and> stdout (main statusCmd ERR_SendCommand) = ''ERR read_error: EOF'' @ [newline]
   \<and> discarded_error (main statusCmd ERR_SendCommand) = None"
  using main_exit_code [of statusCmd ERR_SendCommand] by (simp add: ERR_SendCommand_def)

theorem main_exit_code_counterexample:
  "snd (refused_SendCommand (command_byte toggleCmd)) \<noteq> None
   \<and> exit_code (main toggleCmd refused_SendCommand) = 0"
  by (simp add: main_def Execute_def RunE_def refused_SendCommand_def)

subsection \<open>The daemon's handlers\<close>

lemma status_distinct:
  "Idle \<noteq> Recording" "Idle \<noteq> Transcribing" "Idle \<noteq> Injecting"
  "Recording \<noteq> Transcribing" "Recording \<noteq> Injecting" "Transcribing \<noteq> Injecting"
  "Recording \<noteq> Idle" "Transcribing \<noteq> Idle" "Injecting \<noteq> Idle"
  by (simp_all add: Idle_def Recording_def Transcribing_def Injecting_def)

lemma stopPipeline_slot:
  "pipeline (stopPipeline d) = None" "created (stopPipeline d) = created d"
  by (simp_all add: stopPipeline_def emit_def Let_def split: option.splits)

lemma status_finished_session: "status finished_session = Idle"
  by (simp add: finished_session_def pipeline_teardown_def toggle_def initial_Daemon_def status_def
      emit_def Let_def)

lemma status_first_toggle: "status (toggle (initial_Daemon default_Config)) = Recording"
  by (simp add: toggle_def initial_Daemon_def status_def emit_def Let_def)

lemma handle_never_ERR_empty: "fst (handle v d c) \<noteq> ''ERR empty'' @ [newline]"
  by (auto simp: handle_def ReadString_def split: list.splits)

text \<open>
  Claim C6, as amended. When the client's bytes end before a newline (a short read), the
  daemon replies \<^verbatim>\<open>ERR read_error: \<close> followed by the read's error (\<^verbatim>\<open>EOF\<close> when the
  client closed the connection) and a newline, runs no command, and logs the error.
\<close>

theorem handle_short_read:
  assumes "newline \<notin> set (received c)"
  shows "handle v d c = (''ERR read_error: '' @ msg (read_err c) @ [newline],
                         emit [LogLine (''Client read error: '' @ msg (read_err c))] d)"
  using assms by (simp add: handle_def ReadString_def)

theorem handle_short_read_witness:
  "newline \<notin> set ''t''
   \<and> fst (handle ''1'' finished_session \<lparr>received = ''t'', read_err = EOF\<rparr>) =
       ''ERR read_error: EOF'' @ [newline]"
proof -
  have h: "newline \<notin> set (received \<lparr>received = ''t'', read_err = EOF\<rparr>)"
    by (simp add: newline_def)
  from handle_short_read [OF h, of "''1''" finished_session] h show ?thesis
    by (simp add: EOF_def)
qed

theorem handle_short_read_counterexample:
  "fst (handle ''1'' (initial_Daemon default_Config) \<lparr>received = [], read_err = EOF\<rparr>)
     = ''ERR read_error: EOF'' @ [newline]
   \<and> fst (handle ''1'' (initial_Daemon default_Config) \<lparr>received = [], read_err = EOF\<rparr>)
     \<noteq> ''ERR empty'' @ [newline]"
  by (simp add: handle_def ReadString_def EOF_def)

text \<open>
  Claim C7. When the request line was read and its first byte is none of \<^verbatim>\<open>t\<close>,
  \<^verbatim>\<open>c\<close>, \<^verbatim>\<open>s\<close>, \<^verbatim>\<open>v\<close>, \<^verbatim>\<open>q\<close>, the daemon replies \<^verbatim>\<open>ERR unknown=\<close> followed by the
  quoted byte and a newline, and only logs a line: the pipeline slot, the status every
  pipeline reports, the observed status, the notifier and the daemon context are what
  they were.
\<close>

theorem handle_unknown:
  assumes "ReadString c newline = (cmd # rest, None)"
    and "cmd \<notin> {CHR ''t'', CHR ''c'', CHR ''s'', CHR ''v'', CHR ''q''}"
  shows "handle v d c = (''ERR unknown='' @ fmt_q_byte cmd @ [newline],
                         emit [LogLine (''Unknown command: '' @ fmt_c cmd)] d)
       \<and> pipeline (snd (handle v d c)) = pipeline d
       \<and> pstatus (snd (handle v d c)) = pstatus d
       \<and> status (snd (handle v d c)) = status d
       \<and> notifier (snd (handle v d c)) = notifier d
       \<and> ctx_cancelled (snd (handle v d c)) = ctx_cancelled d"
  using assms by (simp add: handle_def emit_def status_def split: option.splits)

theorem handle_unknown_witness:
  "fst (handle ''1'' finished_session \<lparr>received = ''x'' @ [newline], read_err = EOF\<rparr>)
     = ''ERR unknown='' @ [quote] @ ''x'' @ [quote] @ [newline]
   \<and> pipeline (snd (handle ''1'' finished_session \<lparr>received = ''x'' @ [newline], read_err = EOF\<rparr>))
     = pipeline finished_session"
proof -
  let ?c = "\<lparr>received = ''x'' @ [newline], read_err = EOF\<rparr>"
  have r: "ReadString ?c newline = (CHR ''x'' # [newline], None)"
    by (simp add: ReadString_def newline_def)
  have n: "CHR ''x'' \<notin> {CHR ''t'', CHR ''c'', CHR ''s'', CHR ''v'', CHR ''q''}" by simp
  have q: "fmt_q_byte (CHR ''x'') = [quote] @ ''x'' @ [quote]"
    by code_simp
  from handle_unknown [OF r n, of "''1''" finished_session]
  have h: "handle ''1'' finished_session ?c =
             (''ERR unknown='' @ fmt_q_byte (CHR ''x'') @ [newline],
              emit [LogLine (''Unknown command: '' @ fmt_c (CHR ''x''))] finished_session)"
    by blast
  show ?thesis unfolding h q by (simp add: emit_def)
qed

text \<open>
  Claim C2, as amended. The daemon has one pipeline slot. \<^verbatim>\<open>toggle\<close> constructs a
  pipeline exactly when the status it observes is \<^verbatim>\<open>Idle\<close>, that is when the slot is
  nil or holds a pipeline that reports \<^verbatim>\<open>Idle\<close>; it then puts the new pipeline in the
  slot, over whatever the slot held, and stops nothing. For every other status
  \<^verbatim>\<open>toggle\<close> constructs no pipeline and leaves the slot as it was or nil.
  \<^verbatim>\<open>stopPipeline\<close>, \<^verbatim>\<open>cancelPipeline\<close> and \<^verbatim>\<open>onConfigReload\<close> construct no pipeline and
  leave the slot as it was or nil.
\<close>

theorem toggle_pipeline_slot:
  "(status d = Idle \<longrightarrow>
      toggle d = d\<lparr>created := Suc (created d), pipeline := Some (created d),
                    trace := trace d @ [PipelineNew (created d) (configMgr d), PipelineRun (created d),
                                        GoSend MsgRecordingStarted, GoMonitorPipelineErrors (created d)]\<rparr>
      \<and> (pipeline d = None \<or> (\<exists>p. pipeline d = Some p \<and> pstatus d p = Idle)))
   \<and> (status d \<noteq> Idle \<longrightarrow>
        created (toggle d) = created d
        \<and> (pipeline (toggle d) = None \<or> pipeline (toggle d) = pipeline d))
   \<and> created (stopPipeline d) = created d \<and> pipeline (stopPipeline d) = None
   \<and> created (cancelPipeline d) = created d
   \<and> (pipeline (cancelPipeline d) = None \<or> pipeline (cancelPipeline d) = pipeline d)
   \<and> created (onConfigReload d) = created d \<and> pipeline (onConfigReload d) = None"
proof -
  have a: "status d = Idle \<Longrightarrow>
      toggle d = d\<lparr>created := Suc (created d), pipeline := Some (created d),
                    trace := trace d @ [PipelineNew (created d) (configMgr d), PipelineRun (created d),
                                        GoSend MsgRecordingStarted, GoMonitorPipelineErrors (created d)]\<rparr>"
    by (simp add: toggle_def emit_def Let_def)
  have b: "status d = Idle \<Longrightarrow> pipeline d = None \<or> (\<exists>p. pipeline d = Some p \<and> pstatus d p = Idle)"
    by (cases "pipeline d") (simp_all add: status_def)
  have c: "status d \<noteq> Idle \<Longrightarrow> created (toggle d) = created d
        \<and> (pipeline (toggle d) = None \<or> pipeline (toggle d) = pipeline d)"
    by (auto simp: toggle_def emit_def Let_def stopPipeline_slot split: option.splits)
  have e: "created (cancelPipeline d) = created d
     \<and> (pipeline (cancelPipeline d) = None \<or> pipeline (cancelPipeline d) = pipeline d)"
    by (simp add: cancelPipeline_def emit_def stopPipeline_slot)
  have f: "created (onConfigReload d) = created d \<and> pipeline (onConfigReload d) = None"
    by (simp add: onConfigReload_def emit_def Let_def stopPipeline_slot)
  from a b c e f show ?thesis by (simp add: stopPipeline_slot)
qed

theorem toggle_pipeline_slot_witness:
  "status finished_session = Idle
   \<and> pipeline finished_session = Some 0
   \<and> pipeline (toggle finished_session) = Some 1
   \<and> created (toggle finished_session) = 2
   \<and> status (toggle (initial_Daemon default_Config)) \<noteq> Idle
   \<and> created (toggle (toggle (initial_Daemon default_Config))) = 1
   \<and> pipeline (toggle (toggle (initial_Daemon default_Config))) = None"
proof -
  have c1: "created finished_session = 1" "pipeline finished_session = Some 0"
    by (simp_all add: finished_session_def pipeline_teardown_def toggle_def initial_Daemon_def status_def
      emit_def Let_def)
  have c2: "created (toggle (initial_Daemon default_Config)) = 1"
    "pipeline (toggle (initial_Daemon default_Config)) = Some 0"
    by (simp_all add: toggle_def initial_Daemon_def status_def emit_def Let_def)
  have ne: "status (toggle (initial_Daemon default_Config)) \<noteq> Idle"
    by (simp add: status_first_toggle status_distinct)
  have t2: "pipeline (toggle (toggle (initial_Daemon default_Config))) = None"
    using status_first_toggle
    by (simp add: toggle_def [of "toggle (initial_Daemon default_Config)"] Let_def status_distinct
        stopPipeline_slot emit_def)
  from toggle_pipeline_slot [of finished_session] status_finished_session c1
  have p1: "pipeline (toggle finished_session) = Some 1 \<and> created (toggle finished_session) = 2"
    by simp
  from toggle_pipeline_slot [of "toggle (initial_Daemon default_Config)"] ne c2
  have p2: "created (toggle (toggle (initial_Daemon default_Config))) = 1" by simp
  from p1 p2 t2 ne c1 status_finished_session show ?thesis by simp
qed

theorem toggle_overwrites_idle_pipeline_counterexample:
  "pipeline finished_session = Some 0
   \<and> pipeline (toggle finished_session) = Some 1
   \<and> PipelineStop 0 \<notin> set (trace (toggle finished_session))"
  by (simp add: finished_session_def pipeline_teardown_def toggle_def initial_Daemon_def status_def
      emit_def Let_def)

subsection \<open>Migration of the legacy injection mode\<close>

lemma GetConfigPath_with_file: "GetConfigPath (with_file fs doc) = GetConfigPath fs"
  by (simp add: GetConfigPath_def with_file_def split: sum.splits option.splits)

lemma Load_with_file:
  "Load (with_file fs doc) =
     (case GetConfigPath fs of Inl err \<Rightarrow> Inl err | Inr path \<Rightarrow> load_file path (Inr doc))"
  unfolding Load_def GetConfigPath_with_file
  by (simp add: with_file_def split: sum.splits)

lemma load_file_migrated:
  "mode \<in> {''clipboard'', ''type'', ''fallback''} \<Longrightarrow>
     load_file path (Inr (migrated_form doc mode)) = Inr (decode_Config (migrated_form doc mode))"
  by (auto simp: load_file_def decode_Config_def migrated_form_def migrated_backends_def Let_def)

lemma load_file_legacy:
  "mode \<in> {''clipboard'', ''type'', ''fallback''} \<Longrightarrow>
     load_file path (Inr (legacy_form doc mode)) = Inr (decode_Config (migrated_form doc mode))"
  by (auto simp: load_file_def decode_Config_def migrated_form_def legacy_form_def or_zero_def
        migrated_backends_def decode_legacy_Mode_def migrateInjectionMode_def Let_def)

lemma load_file_backends_form:
  "mode \<in> {''clipboard'', ''type'', ''fallback''} \<Longrightarrow>
     load_file path (Inr (backends_form doc mode)) = Inr (decode_Config (backends_form doc mode))"
  by (auto simp: load_file_def decode_Config_def backends_form_def migrated_backends_def Let_def)

lemma validate_injection_YdotoolTimeout:
  "validate_injection s i = None \<Longrightarrow> 0 < YdotoolTimeout i"
  by (simp add: validate_injection_def split: if_splits option.splits)

lemma backends_form_eq_migrated_form:
  "or_zero (t_ydotool_timeout (t_injection doc)) \<noteq> 0 \<Longrightarrow>
     decode_Config (backends_form doc mode) = decode_Config (migrated_form doc mode)"
  by (simp add: decode_Config_def backends_form_def migrated_form_def or_zero_def)

lemma YdotoolTimeout_backends_form:
  "YdotoolTimeout (cInjection (decode_Config (backends_form doc mode))) =
     or_zero (t_ydotool_timeout (t_injection doc))"
  by (simp add: decode_Config_def backends_form_def)

lemma Backends_migrated_form:
  "Backends (cInjection (decode_Config (migrated_form doc mode))) = migrated_backends mode"
  by (simp add: decode_Config_def migrated_form_def)

lemma backends_form_without_ydotool_timeout_invalid:
  "validate_injection s (cInjection (decode_Config (backends_form legacy_test_doc ''fallback''))) =
     Some (Error (''invalid injection.ydotool_timeout: '' @ fmt_v_Duration s 0))"
  by (simp add: validate_injection_def decode_Config_def backends_form_def legacy_test_doc_def
      migrated_backends_def or_zero_def)

text \<open>
  Claim C9. For every legacy mode in \<^verbatim>\<open>clipboard\<close>, \<^verbatim>\<open>type\<close>, \<^verbatim>\<open>fallback\<close> and
  every file, loading the file in its legacy form (with \<^verbatim>\<open>injection.mode\<close>) and loading
  it in its migrated form give the same result: the same snapshot, all injection timeouts
  included, with the backend list of the mode (or the same error, when the configuration
  path cannot be determined). The same holds for the new form written by hand, with
  \<^verbatim>\<open>backends\<close> in place of \<^verbatim>\<open>mode\<close> and nothing else changed, whenever \<^verbatim>\<open>Validate\<close>
  accepts that file's injection section.
\<close>

theorem migration_idempotent:
  assumes "mode \<in> {''clipboard'', ''type'', ''fallback''}"
  shows "Load (with_file fs (legacy_form doc mode)) = Load (with_file fs (migrated_form doc mode))
         \<and> (\<forall>c. Load (with_file fs (legacy_form doc mode)) = Inr c \<longrightarrow>
                Backends (cInjection c) = migrated_backends mode)
         \<and> (validate_injection s (cInjection (decode_Config (backends_form doc mode))) = None \<longrightarrow>
              Load (with_file fs (legacy_form doc mode)) = Load (with_file fs (backends_form doc mode)))"
proof (cases "GetConfigPath fs")
  case (Inl err)
  then show ?thesis by (simp add: Load_with_file)
next
  case (Inr path)
  have a: "Load (with_file fs (legacy_form doc mode)) = Inr (decode_Config (migrated_form doc mode))"
    using Inr load_file_legacy [OF assms] by (simp add: Load_with_file)
  have b: "Load (with_file fs (migrated_form doc mode)) = Inr (decode_Config (migrated_form doc mode))"
    using Inr load_file_migrated [OF assms] by (simp add: Load_with_file)
  have c: "Load (with_file fs (backends_form doc mode)) = Inr (decode_Config (backends_form doc mode))"
    using Inr load_file_backends_form [OF assms] by (simp add: Load_with_file)
  have d: "decode_Config (backends_form doc mode) = decode_Config (migrated_form doc mode)"
    if "validate_injection s (cInjection (decode_Config (backends_form doc mode))) = None"
    using validate_injection_YdotoolTimeout [OF that]
    by (simp add: YdotoolTimeout_backends_form backends_form_eq_migrated_form)
  from a b c d show ?thesis by (simp add: Backends_migrated_form)
qed

theorem migration_idempotent_witness:
  "''fallback'' \<in> {''clipboard'', ''type'', ''fallback''}
   \<and> Load (with_file example_fs (legacy_form legacy_test_doc ''fallback'')) =
       Load (with_file example_fs (migrated_form legacy_test_doc ''fallback''))
   \<and> map_sum msg (YdotoolTimeout \<circ> cInjection)
       (Load (with_file example_fs (legacy_form legacy_test_doc ''fallback''))) = Inr (5 * Second)
   \<and> map_sum msg (Backends \<circ> cInjection)
       (Load (with_file example_fs (legacy_form legacy_test_doc ''fallback''))) =
       Inr [''wtype'', ''clipboard'']
   \<and> validate_injection example_sys
       (cInjection (decode_Config (backends_form legacy_test_doc_1s ''fallback''))) = None
   \<and> Load (with_file example_fs (legacy_form legacy_test_doc_1s ''fallback'')) =
       Load (with_file example_fs (backends_form legacy_test_doc_1s ''fallback''))"
proof -
  have h: "''fallback'' \<in> {''clipboard'', ''type'', ''fallback''}" by simp
  have m: "Load (with_file example_fs (migrated_form legacy_test_doc ''fallback'')) =
             Inr (decode_Config (migrated_form legacy_test_doc ''fallback''))"
    by (simp add: Load_with_file GetConfigPath_def example_fs_def load_file_migrated)
  have y: "YdotoolTimeout (cInjection (decode_Config (migrated_form legacy_test_doc ''fallback''))) = 5 * Second"
    by (simp add: decode_Config_def migrated_form_def legacy_test_doc_def or_zero_def)
  have v: "validate_injection example_sys
             (cInjection (decode_Config (backends_form legacy_test_doc_1s ''fallback''))) = None"
    by (simp add: validate_injection_def decode_Config_def backends_form_def legacy_test_doc_1s_def
        legacy_test_doc_def migrated_backends_def or_zero_def Second_def)
  from migration_idempotent [OF h, of example_fs legacy_test_doc example_sys]
  have 1: "Load (with_file example_fs (legacy_form legacy_test_doc ''fallback'')) =
           Load (with_file example_fs (migrated_form legacy_test_doc ''fallback''))"
    by blast
  from migration_idempotent [OF h, of example_fs legacy_test_doc_1s example_sys] v
  have 2: "Load (with_file example_fs (legacy_form legacy_test_doc_1s ''fallback'')) =
           Load (with_file example_fs (backends_form legacy_test_doc_1s ''fallback''))"
    by blast
  from h 1 2 v m y show ?thesis
    by (simp add: Backends_migrated_form migrated_backends_def)
qed

subsection \<open>Resolving the notification messages\<close>

lemma tagToField_eval:
  "tagToField = [''recording_started'' \<mapsto> 0, ''transcribing'' \<mapsto> Suc 0,
     ''config_reloaded'' \<mapsto> Suc (Suc 0), ''operation_cancelled'' \<mapsto> Suc (Suc (Suc 0)),
     ''recording_aborted'' \<mapsto> Suc (Suc (Suc (Suc 0))),
     ''injection_aborted'' \<mapsto> Suc (Suc (Suc (Suc (Suc 0))))]"
  by (simp add: tagToField_def field_tags_def)

lemma MessageDefs_cases:
  "d \<in> set MessageDefs \<Longrightarrow>
     d = MessageDefs ! 0 \<or> d = MessageDefs ! 1 \<or> d = MessageDefs ! 2 \<or>
     d = MessageDefs ! 3 \<or> d = MessageDefs ! 4 \<or> d = MessageDefs ! 5"
  by (simp add: MessageDefs_def)

lemma resolve_def_eq:
  assumes "d \<in> set MessageDefs"
  shows "resolve_def m d =
     \<lparr>msg_Title = (if Title (user_msg m (def_Type d)) \<noteq> [] then Title (user_msg m (def_Type d))
                    else DefaultTitle d),
      msg_Body = (if Body (user_msg m (def_Type d)) \<noteq> [] then Body (user_msg m (def_Type d))
                   else DefaultBody d),
      IsError = def_IsError d\<rparr>"
proof -
  from assms consider
      "d = MessageDefs ! 0" | "d = MessageDefs ! 1" | "d = MessageDefs ! 2"
    | "d = MessageDefs ! 3" | "d = MessageDefs ! 4" | "d = MessageDefs ! 5"
    using MessageDefs_cases by blast
  then show ?thesis
  proof cases
    case 1 then show ?thesis
      by (simp add: MessageDefs_def resolve_def_def tagToField_eval user_msg_def field_values_def Let_def)
  next
    case 2 then show ?thesis
      by (simp add: MessageDefs_def resolve_def_def tagToField_eval user_msg_def field_values_def Let_def)
  next
    case 3 then show ?thesis
      by (simp add: MessageDefs_def resolve_def_def tagToField_eval user_msg_def field_values_def Let_def)
  next
    case 4 then show ?thesis
      by (simp add: MessageDefs_def resolve_def_def tagToField_eval user_msg_def field_values_def Let_def)
  next
    case 5 then show ?thesis
      by (simp add: MessageDefs_def resolve_def_def tagToField_eval user_msg_def field_values_def Let_def)
  next
    case 6 then show ?thesis
      by (simp add: MessageDefs_def resolve_def_def tagToField_eval user_msg_def field_values_def Let_def)
  qed
qed

lemma Resolve_lookup:
  assumes "d \<in> set MessageDefs"
  shows "Resolve m (def_Type d) = Some (resolve_def m d)"
proof -
  from assms consider
      "d = MessageDefs ! 0" | "d = MessageDefs ! 1" | "d = MessageDefs ! 2"
    | "d = MessageDefs ! 3" | "d = MessageDefs ! 4" | "d = MessageDefs ! 5"
    using MessageDefs_cases by blast
  then show ?thesis
    by cases (simp_all add: Resolve_def MessageDefs_def)
qed

lemma MessageDefs_all_types: "def_Type ` set MessageDefs = UNIV"
proof -
  have "x \<in> def_Type ` set MessageDefs" for x
    by (cases x) (simp_all add: MessageDefs_def)
  then show ?thesis by blast
qed

text \<open>
  Claim C10. For every \<^verbatim>\<open>MessagesConfig\<close>, \<^verbatim>\<open>Resolve\<close> has an entry for the type of every
  definition in \<^verbatim>\<open>MessageDefs\<close>. The entry's title is the user's title when that is not
  the empty string and the definition's default title otherwise, and likewise for the
  body; the error flag is the definition's. So an override set to the empty string
  leaves the default in place.
\<close>

theorem Resolve_merges_defaults:
  "\<forall>d \<in> set MessageDefs.
     Resolve m (def_Type d) =
       Some \<lparr>msg_Title = (if Title (user_msg m (def_Type d)) \<noteq> [] then Title (user_msg m (def_Type d))
                           else DefaultTitle d),
             msg_Body = (if Body (user_msg m (def_Type d)) \<noteq> [] then Body (user_msg m (def_Type d))
                          else DefaultBody d),
             IsError = def_IsError d\<rparr>"
  using Resolve_lookup resolve_def_eq by simp

theorem Resolve_merges_defaults_witness:
  "MessageDefs ! 0 \<in> set MessageDefs
   \<and> Resolve example_messages MsgRecordingStarted =
       Some \<lparr>msg_Title = ''Hyprvoice'', msg_Body = ''REC'', IsError = False\<rparr>"
proof -
  have h: "MessageDefs ! 0 \<in> set MessageDefs" by (simp add: MessageDefs_def)
  from Resolve_merges_defaults [of example_messages, rule_format, OF h] h
  show ?thesis
    by (simp add: MessageDefs_def user_msg_def example_messages_def no_messages_def)
qed

end
